theory Spec2Isabelle
  imports Main
begin

section \<open>The messaging transport module of the RabbitMQ services\<close>

text \<open>
  The theory embeds the four files of the \<^verbatim>\<open>rabbitmq\<close> module: \<^verbatim>\<open>constants.js\<close>,
  \<^verbatim>\<open>connection.js\<close>, \<^verbatim>\<open>publisher.js\<close> and \<^verbatim>\<open>consumer.js\<close>.

  Everything outside the repository is an oracle that the functions take as a parameter:
  the \<^verbatim>\<open>amqplib\<close> connection and channel, the application handler, and the runtime's
  \<^verbatim>\<open>JSON\<close> and \<^verbatim>\<open>Buffer\<close>. Every call on the broker is recorded in a trace, in the order
  in which the code issues it, so that a statement about what was issued (and in which
  order) is a statement about that list. \<^verbatim>\<open>console.log\<close> and its siblings are left out.
\<close>

subsection \<open>Errors and JavaScript values\<close>

text \<open>
  A JavaScript \<^verbatim>\<open>Error\<close> with its message: what \<^verbatim>\<open>amqplib\<close> and the runtime throw. A
  throwing call returns \<open>Inl\<close>.
\<close>

datatype error = Error string

fun error_message :: "error \<Rightarrow> string" where
  "error_message (Error m) = m"

text \<open>
  The values an application handler may resolve with, as far as the test
  \<^verbatim>\<open>if (success)\<close> can tell them apart.
\<close>

datatype js_value =
    JUndefined
  | JNull
  | JBoolean bool
  | JNumber int
  | JNaN
  | JString string
  | JObject

fun truthy :: "js_value \<Rightarrow> bool" where
  "truthy JUndefined = False"
| "truthy JNull = False"
| "truthy (JBoolean b) = b"
| "truthy (JNumber n) = (n \<noteq> 0)"
| "truthy JNaN = False"
| "truthy (JString s) = (s \<noteq> [])"
| "truthy JObject = True"

text \<open>
  What an application handler may reject with: an \<^verbatim>\<open>Error\<close>, or any other value, since
  JavaScript throws values of every kind. Reading \<^verbatim>\<open>error.message\<close> from what was caught
  gives the message of an \<^verbatim>\<open>Error\<close>, gives \<^verbatim>\<open>undefined\<close> on a value without that property,
  and throws a \<^verbatim>\<open>TypeError\<close> on \<^verbatim>\<open>undefined\<close> and on \<^verbatim>\<open>null\<close>.
\<close>

datatype thrown =
    ThrowsError error
  | ThrowsValue js_value

fun message_of :: "thrown \<Rightarrow> error + string option" where
  "message_of (ThrowsError e) = Inr (Some (error_message e))"
| "message_of (ThrowsValue JUndefined) =
     Inl (Error ''Cannot read properties of undefined (reading 'message')'')"
| "message_of (ThrowsValue JNull) =
     Inl (Error ''Cannot read properties of null (reading 'message')'')"
| "message_of (ThrowsValue v) = Inr None"

type_synonym buffer = "char list"

subsection \<open>constants.js\<close>

record exchange_options =
  ex_durable :: bool
  ex_autoDelete :: bool

record exchange_config =
  ex_name :: string
  ex_type :: string
  ex_options :: exchange_options

text \<open>
  \<^verbatim>\<open>options.arguments\<close> is absent (\<^verbatim>\<open>undefined\<close>) in \<^verbatim>\<open>EMAIL_DLQ\<close>, hence the option.
\<close>

record queue_options =
  q_durable :: bool
  q_autoDelete :: bool
  arguments :: "(string \<times> string) list option"

record queue_config =
  q_name :: string
  q_options :: queue_options

record message_options =
  persistent :: bool
  contentType :: string
  contentEncoding :: string

definition ORDER_EXCHANGE :: exchange_config where
  "ORDER_EXCHANGE =
     \<lparr>ex_name = ''order.exchange'', ex_type = ''direct'',
      ex_options = \<lparr>ex_durable = True, ex_autoDelete = False\<rparr>\<rparr>"

definition DEAD_LETTER_EXCHANGE :: exchange_config where
  "DEAD_LETTER_EXCHANGE =
     \<lparr>ex_name = ''dlx.exchange'', ex_type = ''direct'',
      ex_options = \<lparr>ex_durable = True, ex_autoDelete = False\<rparr>\<rparr>"

definition EMAIL_QUEUE :: queue_config where
  "EMAIL_QUEUE =
     \<lparr>q_name = ''email.queue'',
      q_options = \<lparr>q_durable = True, q_autoDelete = False,
        arguments = Some [(''x-dead-letter-exchange'', ''dlx.exchange''),
                          (''x-dead-letter-routing-key'', ''email.dlq'')]\<rparr>\<rparr>"

definition EMAIL_DLQ :: queue_config where
  "EMAIL_DLQ =
     \<lparr>q_name = ''email.dlq'',
      q_options = \<lparr>q_durable = True, q_autoDelete = False, arguments = None\<rparr>\<rparr>"

definition ORDER_CREATED :: string where
  "ORDER_CREATED = ''order.created''"

definition MESSAGE_OPTIONS :: message_options where
  "MESSAGE_OPTIONS =
     \<lparr>persistent = True, contentType = ''application/json'', contentEncoding = ''utf-8''\<rparr>"

definition prefetchCount :: nat where
  "prefetchCount = 1"

definition noAck :: bool where
  "noAck = False"

subsection \<open>The broker as the code drives it\<close>

text \<open>A delivery as the consumer callback receives it (\<^verbatim>\<open>null\<close> is \<open>None\<close>).\<close>

record delivery =
  content :: buffer
  deliveryTag :: nat

text \<open>
  The calls the module makes on a channel. The routing key of \<open>BindQueue\<close> is an option
  because the dead-letter binding reads it from the queue's arguments, where it may be
  missing (\<^verbatim>\<open>undefined\<close>). \<open>Nack m allUpTo requeue\<close> has the two flags of
  \<^verbatim>\<open>channel.nack(msg, allUpTo, requeue)\<close>. \<open>AssertInherited\<close> and \<open>BindInherited\<close> are
  \<^verbatim>\<open>assertQueue\<close> and \<^verbatim>\<open>bindQueue\<close> as the code calls them when the dead-letter lookup
  has returned a member of \<^verbatim>\<open>Object.prototype\<close> in place of a queue configuration: the
  queue name is the \<^verbatim>\<open>name\<close> property of that member, which may be missing, and the
  options are \<^verbatim>\<open>undefined\<close>.
\<close>

datatype command =
    AssertExchange string string exchange_options
  | AssertQueue string queue_options
  | BindQueue string string "string option"
  | AssertInherited "string option"
  | BindInherited "string option" string "string option"
  | Prefetch nat
  | Consume string bool
  | Publish string string buffer message_options
  | Ack delivery
  | Nack delivery bool bool

fun is_Publish :: "command \<Rightarrow> bool" where
  "is_Publish (Publish e k b opts) = True"
| "is_Publish c = False"

fun is_decision :: "command \<Rightarrow> bool" where
  "is_decision (Ack m) = True"
| "is_decision (Nack m a r) = True"
| "is_decision c = False"

text \<open>
  The broker's answers. \<open>settle\<close> answers a call whose value the code does not read: an
  awaited call (\<open>None\<close>: the promise resolves; \<open>Some e\<close>: it rejects with \<open>e\<close>), and
  \<^verbatim>\<open>channel.ack\<close> and \<^verbatim>\<open>channel.nack\<close> (\<open>None\<close>: the call returns; \<open>Some e\<close>: it throws \<open>e\<close>,
  as it does on a closed channel). \<open>accept\<close> answers \<^verbatim>\<open>channel.publish\<close>, which returns
  the write buffer's flag or throws. Both see the commands issued before, so that the
  broker may answer the same command differently at different times.
\<close>

record broker =
  settle :: "command list \<Rightarrow> command \<Rightarrow> error option"
  accept :: "command list \<Rightarrow> command \<Rightarrow> error + bool"

text \<open>
  A piece of code that talks to the channel: from the commands issued so far to its
  result (or the error it throws) and the commands issued when it ends.
\<close>

type_synonym 'a prog = "command list \<Rightarrow> (error + 'a) \<times> command list"

definition resolve :: "'a \<Rightarrow> 'a prog" where
  "resolve a tr = (Inr a, tr)"

definition reject :: "error \<Rightarrow> 'a prog" where
  "reject e tr = (Inl e, tr)"

definition lift :: "error + 'a \<Rightarrow> 'a prog" where
  "lift r tr = (r, tr)"

definition await :: "broker \<Rightarrow> command \<Rightarrow> unit prog" where
  "await br c tr =
     (case settle br tr c of
        None \<Rightarrow> (Inr (), tr @ [c])
      | Some e \<Rightarrow> (Inl e, tr @ [c]))"

definition publish :: "broker \<Rightarrow> command \<Rightarrow> bool prog" where
  "publish br c tr = (accept br tr c, tr @ [c])"

definition and_then :: "'a prog \<Rightarrow> ('a \<Rightarrow> 'b prog) \<Rightarrow> 'b prog" where
  "and_then m f tr =
     (case m tr of
        (Inl e, tr') \<Rightarrow> (Inl e, tr')
      | (Inr a, tr') \<Rightarrow> f a tr')"

definition next_do :: "unit prog \<Rightarrow> 'b prog \<Rightarrow> 'b prog" where
  "next_do m n = and_then m (\<lambda>u. n)"

subsection \<open>connection.js\<close>

text \<open>
  What the module asks of \<^verbatim>\<open>amqplib\<close> and of the clock, in order. A connection and a
  channel are handles (numbers); \<^verbatim>\<open>null\<close> is \<open>None\<close>.
\<close>

datatype net_event =
    Delay nat
  | Connect "string option"
  | CreateChannel nat

fun is_Connect :: "net_event \<Rightarrow> bool" where
  "is_Connect (Connect u) = True"
| "is_Connect ev = False"

fun is_CreateChannel :: "net_event \<Rightarrow> bool" where
  "is_CreateChannel (CreateChannel cn) = True"
| "is_CreateChannel ev = False"

definition connect_attempts :: "net_event list \<Rightarrow> nat" where
  "connect_attempts evs = length (filter is_Connect evs)"

record net =
  amqp_connect :: "net_event list \<Rightarrow> string option \<Rightarrow> error + nat"
  createChannel :: "net_event list \<Rightarrow> nat \<Rightarrow> error + nat"

text \<open>
  The module-level variables of \<^verbatim>\<open>connection.js\<close>, and the events so far
  (\<open>net_log\<close>, which the code does not hold: it is the record of what it did).
\<close>

record manager =
  connection :: "nat option"
  channel :: "nat option"
  connectionUrl :: "string option"
  isReconnecting :: bool
  reconnectAttempts :: nat
  net_log :: "net_event list"

definition initial :: manager where
  "initial =
     \<lparr>connection = None, channel = None, connectionUrl = None,
      isReconnecting = False, reconnectAttempts = 0, net_log = []\<rparr>"

definition MAX_RECONNECT_ATTEMPTS :: nat where
  "MAX_RECONNECT_ATTEMPTS = 10"

definition RECONNECT_DELAY_MS :: nat where
  "RECONNECT_DELAY_MS = 5000"

text \<open>\<^verbatim>\<open>getChannel\<close>: the channel at hand, or a new one from the connection.\<close>

definition getChannel :: "net \<Rightarrow> manager \<Rightarrow> (error + nat) \<times> manager" where
  "getChannel nt s =
     (case channel s of
        Some c \<Rightarrow> (Inr c, s)
      | None \<Rightarrow>
          (case connection s of
             None \<Rightarrow>
               (Inl (Error ''No RabbitMQ connection available. Call connect() first.''), s)
           | Some cn \<Rightarrow>
               (case createChannel nt (net_log s) cn of
                  Inl e \<Rightarrow> (Inl e, s\<lparr>net_log := net_log s @ [CreateChannel cn]\<rparr>)
                | Inr c \<Rightarrow>
                    (Inr c, s\<lparr>channel := Some c,
                              net_log := net_log s @ [CreateChannel cn]\<rparr>))))"

text \<open>
  The \<^verbatim>\<open>while\<close> loop of \<^verbatim>\<open>handleReconnection\<close>. The \<^verbatim>\<open>try\<close> block holds the delay, the
  connection attempt, the reset of the two variables and the call of \<^verbatim>\<open>getChannel\<close>;
  whatever throws there is logged by the \<^verbatim>\<open>catch\<close> and the loop goes on. The loop need
  not end, so the result is an option: \<open>None\<close> when it never returns.
\<close>

partial_function (option) reconnect_loop :: "net \<Rightarrow> manager \<Rightarrow> manager option" where
  "reconnect_loop nt s =
     (if reconnectAttempts s < MAX_RECONNECT_ATTEMPTS then
        (let s1 = s\<lparr>reconnectAttempts := reconnectAttempts s + 1\<rparr>;
             s2 = s1\<lparr>net_log := net_log s1 @ [Delay RECONNECT_DELAY_MS]\<rparr>;
             s3 = s2\<lparr>net_log := net_log s2 @ [Connect (connectionUrl s2)]\<rparr>
         in case amqp_connect nt (net_log s2) (connectionUrl s2) of
              Inl e \<Rightarrow> reconnect_loop nt s3
            | Inr cn \<Rightarrow>
                (case getChannel nt
                        (s3\<lparr>connection := Some cn, reconnectAttempts := 0,
                            isReconnecting := False, channel := None\<rparr>) of
                   (Inl e, s4) \<Rightarrow> reconnect_loop nt s4
                 | (Inr c, s4) \<Rightarrow> Some s4))
      else Some (s\<lparr>isReconnecting := False\<rparr>))"

declare reconnect_loop.simps [code]

definition handleReconnection :: "net \<Rightarrow> manager \<Rightarrow> manager option" where
  "handleReconnection nt s =
     (if isReconnecting s then Some s
      else reconnect_loop nt (s\<lparr>isReconnecting := True\<rparr>))"

text \<open>
  \<^verbatim>\<open>connect\<close>. Its \<^verbatim>\<open>catch\<close> awaits \<^verbatim>\<open>handleReconnection\<close> and then rethrows the error
  of its own attempt.
\<close>

definition connect :: "net \<Rightarrow> string \<Rightarrow> manager \<Rightarrow> ((error + nat) \<times> manager) option" where
  "connect nt url s =
     (case connection s of
        Some cn \<Rightarrow> Some (Inr cn, s)
      | None \<Rightarrow>
          (let s1 = s\<lparr>connectionUrl := Some url\<rparr>;
               s2 = s1\<lparr>net_log := net_log s1 @ [Connect (Some url)]\<rparr>
           in case amqp_connect nt (net_log s1) (Some url) of
                Inr cn \<Rightarrow>
                  Some (Inr cn, s2\<lparr>connection := Some cn, reconnectAttempts := 0,
                                   isReconnecting := False\<rparr>)
              | Inl e \<Rightarrow>
                  (case handleReconnection nt s2 of
                     None \<Rightarrow> None
                   | Some s3 \<Rightarrow> Some (Inl e, s3))))"

text \<open>The handler of the connection's \<^verbatim>\<open>close\<close> event.\<close>

definition on_close :: "net \<Rightarrow> manager \<Rightarrow> manager option" where
  "on_close nt s =
     (let s1 = s\<lparr>connection := None, channel := None\<rparr>
      in if \<not> isReconnecting s1 then handleReconnection nt s1 else Some s1)"

subsection \<open>The runtime\<close>

text \<open>
  \<^verbatim>\<open>JSON.stringify\<close> throws, or returns a string, or returns \<^verbatim>\<open>undefined\<close> (\<open>None\<close>).
  \<^verbatim>\<open>Buffer.from\<close> encodes a string and \<^verbatim>\<open>toString\<close> decodes a buffer. \<^verbatim>\<open>JSON.parse\<close>
  throws on text that is not JSON. The type \<open>'m\<close> is that of the values the application
  publishes, \<open>'v\<close> that of the values \<^verbatim>\<open>JSON.parse\<close> returns.
\<close>

record ('m, 'v) runtime =
  JSON_stringify :: "'m \<Rightarrow> error + string option"
  Buffer_from :: "string \<Rightarrow> buffer"
  Buffer_toString :: "buffer \<Rightarrow> string"
  JSON_parse :: "string \<Rightarrow> error + 'v"

subsection \<open>publisher.js\<close>

text \<open>
  \<^verbatim>\<open>findDLQForQueue\<close>, the same function in \<^verbatim>\<open>publisher.js\<close> and in \<^verbatim>\<open>consumer.js\<close>.
  \<^verbatim>\<open>queueToDLQMap\<close> is an object literal, so that \<^verbatim>\<open>queueToDLQMap[queueName]\<close> finds the
  literal's own key and, failing that, the members the literal inherits from
  \<^verbatim>\<open>Object.prototype\<close>. \<open>Object_prototype\<close> lists them, each with its \<^verbatim>\<open>name\<close> property:
  the functions are named after themselves, \<^verbatim>\<open>constructor\<close> is the function \<^verbatim>\<open>Object\<close>,
  and \<^verbatim>\<open>__proto__\<close> yields the prototype object, which has no such property. All of them
  are truthy, so \<^verbatim>\<open>|| null\<close> lets them through.
\<close>

definition queueToDLQMap :: "string \<rightharpoonup> queue_config" where
  "queueToDLQMap = [q_name EMAIL_QUEUE \<mapsto> EMAIL_DLQ]"

definition Object_prototype :: "(string \<times> string option) list" where
  "Object_prototype =
     [(''constructor'', Some ''Object''),
      (''__defineGetter__'', Some ''__defineGetter__''),
      (''__defineSetter__'', Some ''__defineSetter__''),
      (''hasOwnProperty'', Some ''hasOwnProperty''),
      (''__lookupGetter__'', Some ''__lookupGetter__''),
      (''__lookupSetter__'', Some ''__lookupSetter__''),
      (''isPrototypeOf'', Some ''isPrototypeOf''),
      (''propertyIsEnumerable'', Some ''propertyIsEnumerable''),
      (''toString'', Some ''toString''),
      (''valueOf'', Some ''valueOf''),
      (''__proto__'', None),
      (''toLocaleString'', Some ''toLocaleString'')]"

datatype dlq_lookup =
    Configured queue_config
  | Inherited "string option"

definition findDLQForQueue :: "string \<Rightarrow> dlq_lookup option" where
  "findDLQForQueue queueName =
     (case queueToDLQMap queueName of
        Some dlqConfig \<Rightarrow> Some (Configured dlqConfig)
      | None \<Rightarrow>
          (case map_of Object_prototype queueName of
             Some member_name \<Rightarrow> Some (Inherited member_name)
           | None \<Rightarrow> None))"

text \<open>
  Steps 1 to 5, which \<^verbatim>\<open>publishMessage\<close> and \<^verbatim>\<open>consumeMessages\<close> both carry, statement
  for statement. Reading the routing key from \<^verbatim>\<open>queueConfig.options.arguments\<close> throws a
  \<^verbatim>\<open>TypeError\<close> when the queue has no arguments.
\<close>

definition dlx_assertion :: command where
  "dlx_assertion =
     AssertExchange (ex_name DEAD_LETTER_EXCHANGE) (ex_type DEAD_LETTER_EXCHANGE)
       (ex_options DEAD_LETTER_EXCHANGE)"

definition provision :: "broker \<Rightarrow> exchange_config \<Rightarrow> queue_config \<Rightarrow> string \<Rightarrow> unit prog" where
  "provision br exchangeConfig queueConfig routingKey =
     next_do (await br dlx_assertion)
    (next_do
       (case findDLQForQueue (q_name queueConfig) of
          None \<Rightarrow> resolve ()
        | Some (Configured dlqConfig) \<Rightarrow>
            next_do (await br (AssertQueue (q_name dlqConfig) (q_options dlqConfig)))
              (case arguments (q_options queueConfig) of
                 None \<Rightarrow>
                   reject (Error
                     ''Cannot read properties of undefined (reading 'x-dead-letter-routing-key')'')
               | Some args \<Rightarrow>
                   await br
                     (BindQueue (q_name dlqConfig) (ex_name DEAD_LETTER_EXCHANGE)
                        (map_of args ''x-dead-letter-routing-key'')))
        | Some (Inherited member_name) \<Rightarrow>
            next_do (await br (AssertInherited member_name))
              (case arguments (q_options queueConfig) of
                 None \<Rightarrow>
                   reject (Error
                     ''Cannot read properties of undefined (reading 'x-dead-letter-routing-key')'')
               | Some args \<Rightarrow>
                   await br
                     (BindInherited member_name (ex_name DEAD_LETTER_EXCHANGE)
                        (map_of args ''x-dead-letter-routing-key''))))
    (next_do
       (await br
          (AssertExchange (ex_name exchangeConfig) (ex_type exchangeConfig)
             (ex_options exchangeConfig)))
    (next_do (await br (AssertQueue (q_name queueConfig) (q_options queueConfig)))
       (await br
          (BindQueue (q_name queueConfig) (ex_name exchangeConfig) (Some routingKey))))))"

text \<open>Step 6 of \<^verbatim>\<open>publishMessage\<close>: the inner \<^verbatim>\<open>try\<close> and its \<^verbatim>\<open>catch\<close>.\<close>

definition serialize :: "('m, 'v) runtime \<Rightarrow> 'm \<Rightarrow> error + buffer" where
  "serialize rt msg =
     (case JSON_stringify rt msg of
        Inl e \<Rightarrow> Inl (Error (''Failed to serialize message: '' @ error_message e))
      | Inr None \<Rightarrow>
          Inl (Error (''Failed to serialize message: '' @
            ''The first argument must be of type string or an instance of Buffer, '' @
            ''ArrayBuffer, or Array or an Array-like Object. Received undefined''))
      | Inr (Some messageString) \<Rightarrow> Inr (Buffer_from rt messageString))"

text \<open>
  \<^verbatim>\<open>publishMessage\<close>. The outer \<^verbatim>\<open>catch\<close> logs and rethrows. The result is what the call
  returns or throws, the commands it issued, and the module's variables after it.
\<close>

definition publishMessage ::
  "('m, 'v) runtime \<Rightarrow> net \<Rightarrow> broker \<Rightarrow> exchange_config \<Rightarrow> queue_config \<Rightarrow> string \<Rightarrow> 'm
     \<Rightarrow> manager \<Rightarrow> ((error + bool) \<times> command list) \<times> manager" where
  "publishMessage rt nt br exchangeConfig queueConfig routingKey msg s =
     (case getChannel nt s of
        (Inl e, s') \<Rightarrow> ((Inl e, []), s')
      | (Inr ch, s') \<Rightarrow>
          (next_do (provision br exchangeConfig queueConfig routingKey)
             (and_then (lift (serialize rt msg)) (\<lambda>messageBuffer.
              and_then
                (publish br
                   (Publish (ex_name exchangeConfig) routingKey messageBuffer MESSAGE_OPTIONS))
                (\<lambda>published. resolve (if published then True else False)))) [],
           s'))"

subsection \<open>consumer.js\<close>

definition deserializeMessage :: "('m, 'v) runtime \<Rightarrow> delivery \<Rightarrow> error + 'v" where
  "deserializeMessage rt msg =
     (case JSON_parse rt (Buffer_toString rt (content msg)) of
        Inl e \<Rightarrow> Inl (Error (''Failed to deserialize message: '' @ error_message e))
      | Inr messageObject \<Rightarrow> Inr messageObject)"

text \<open>
  The callback that \<^verbatim>\<open>consumeMessages\<close> hands to \<^verbatim>\<open>channel.consume\<close>. \<open>onMessage\<close> is the
  application handler: it resolves with a value or rejects with what it throws. The
  result of the callback is the commands it issued on the channel (a call that throws is
  a call made, and is in the list), the payloads it called the handler with, and the
  error with which the callback itself ends when something throws out of it.
\<close>

record 'v callback_result =
  cb_issued :: "command list"
  cb_calls :: "'v list"
  cb_thrown :: "error option"

text \<open>
  The \<^verbatim>\<open>try\<close> block: deserialize, call the handler, acknowledge or reject. It ends with
  what was thrown in it, if anything.
\<close>

definition try_block ::
  "('m, 'v) runtime \<Rightarrow> broker \<Rightarrow> ('v \<Rightarrow> thrown + js_value) \<Rightarrow> delivery
     \<Rightarrow> thrown option \<times> command list \<times> 'v list" where
  "try_block rt br onMessage m =
     (case deserializeMessage rt m of
        Inl e \<Rightarrow> (Some (ThrowsError e), [], [])
      | Inr messageContent \<Rightarrow>
          (case onMessage messageContent of
             Inl t \<Rightarrow> (Some t, [], [messageContent])
           | Inr success \<Rightarrow>
               (let decision = (if truthy success then Ack m else Nack m False False)
                in (map_option ThrowsError (settle br [] decision), [decision],
                    [messageContent]))))"

text \<open>
  The \<^verbatim>\<open>catch\<close> block: it reads \<^verbatim>\<open>error.message\<close> and \<^verbatim>\<open>error.stack\<close> for the log, and
  then rejects the delivery. It ends with the error thrown in it, if any.
\<close>

definition catch_block ::
  "broker \<Rightarrow> delivery \<Rightarrow> thrown \<Rightarrow> command list \<Rightarrow> error option \<times> command list" where
  "catch_block br m t issued_before =
     (case message_of t of
        Inl type_error \<Rightarrow> (Some type_error, issued_before)
      | Inr logged \<Rightarrow>
          (settle br issued_before (Nack m False False),
           issued_before @ [Nack m False False]))"

definition consume_callback ::
  "('m, 'v) runtime \<Rightarrow> broker \<Rightarrow> ('v \<Rightarrow> thrown + js_value) \<Rightarrow> delivery option
     \<Rightarrow> 'v callback_result" where
  "consume_callback rt br onMessage msg =
     (case msg of
        None \<Rightarrow> \<lparr>cb_issued = [], cb_calls = [], cb_thrown = None\<rparr>
      | Some m \<Rightarrow>
          (case try_block rt br onMessage m of
             (None, cmds, calls) \<Rightarrow>
               \<lparr>cb_issued = cmds, cb_calls = calls, cb_thrown = None\<rparr>
           | (Some t, cmds, calls) \<Rightarrow>
               (case catch_block br m t cmds of
                  (e, cmds') \<Rightarrow>
                    \<lparr>cb_issued = cmds', cb_calls = calls, cb_thrown = e\<rparr>)))"

text \<open>\<^verbatim>\<open>consumeMessages\<close>: steps 1 to 5, the prefetch count, the subscription.\<close>

definition consumeMessages ::
  "net \<Rightarrow> broker \<Rightarrow> exchange_config \<Rightarrow> queue_config \<Rightarrow> string
     \<Rightarrow> manager \<Rightarrow> ((error + unit) \<times> command list) \<times> manager" where
  "consumeMessages nt br exchangeConfig queueConfig routingKey s =
     (case getChannel nt s of
        (Inl e, s') \<Rightarrow> ((Inl e, []), s')
      | (Inr ch, s') \<Rightarrow>
          (next_do (provision br exchangeConfig queueConfig routingKey)
             (next_do (await br (Prefetch prefetchCount))
                (await br (Consume (q_name queueConfig) noAck))) [],
           s'))"

text \<open>The result and the commands of a call.\<close>

definition outcome :: "('a \<times> command list) \<times> manager \<Rightarrow> 'a" where
  "outcome r = fst (fst r)"

definition issued :: "('a \<times> command list) \<times> manager \<Rightarrow> command list" where
  "issued r = snd (fst r)"

subsection \<open>Worlds to run the code in\<close>

text \<open>A broker that accepts everything, and one whose write buffer is full.\<close>

definition willing :: broker where
  "willing = \<lparr>settle = (\<lambda>tr c. None), accept = (\<lambda>tr c. Inr True)\<rparr>"

definition congested :: broker where
  "congested = \<lparr>settle = (\<lambda>tr c. None), accept = (\<lambda>tr c. Inr False)\<rparr>"

text \<open>A broker whose channel has closed: \<^verbatim>\<open>ack\<close> and \<^verbatim>\<open>nack\<close> throw.\<close>

definition closed_channel :: broker where
  "closed_channel =
     \<lparr>settle = (\<lambda>tr c. if is_decision c then Some (Error ''Channel closed'') else None),
      accept = (\<lambda>tr c. Inl (Error ''Channel closed''))\<rparr>"

text \<open>
  A network on which every connection attempt is refused; one on which every attempt is
  accepted (the handle is the number of events so far); and one that accepts every
  connection but refuses the first eleven channels.
\<close>

definition unreachable :: net where
  "unreachable =
     \<lparr>amqp_connect = (\<lambda>evs u. Inl (Error ''connect ECONNREFUSED 127.0.0.1:5672'')),
      createChannel = (\<lambda>evs cn. Inl (Error ''Connection closed''))\<rparr>"

definition reachable :: net where
  "reachable =
     \<lparr>amqp_connect = (\<lambda>evs u. Inr (length evs)),
      createChannel = (\<lambda>evs cn. Inr (length evs))\<rparr>"

definition flaky :: net where
  "flaky =
     \<lparr>amqp_connect = (\<lambda>evs u. Inr (length evs)),
      createChannel = (\<lambda>evs cn.
        if length (filter is_CreateChannel evs) < 11
        then Inl (Error ''Connection closed'') else Inr (length evs))\<rparr>"

text \<open>A network that refuses the first connection attempt and accepts the later ones.\<close>

definition recovering :: net where
  "recovering =
     \<lparr>amqp_connect = (\<lambda>evs u.
        if evs = [] then Inl (Error ''connect ECONNREFUSED 127.0.0.1:5672'')
        else Inr (length evs)),
      createChannel = (\<lambda>evs cn. Inr (length evs))\<rparr>"

text \<open>The module once connected, with a channel; and after the connection has dropped (the
  log starts afresh there, so that it holds what the reconnection did).\<close>

definition connected :: manager where
  "connected =
     \<lparr>connection = Some 0, channel = Some 1, connectionUrl = Some ''amqp://localhost'',
      isReconnecting = False, reconnectAttempts = 0,
      net_log = [Connect (Some ''amqp://localhost''), CreateChannel 0]\<rparr>"

definition dropped :: manager where
  "dropped =
     \<lparr>connection = None, channel = None, connectionUrl = Some ''amqp://localhost'',
      isReconnecting = False, reconnectAttempts = 0, net_log = []\<rparr>"

text \<open>
  The module after \<^verbatim>\<open>connect\<close> has failed on the unreachable network: its own attempt and
  the ten of the reconnection procedure are in the log.
\<close>

definition exhausted :: manager where
  "exhausted =
     \<lparr>connection = None, channel = None, connectionUrl = Some ''amqp://localhost'',
      isReconnecting = False, reconnectAttempts = 10,
      net_log = Connect (Some ''amqp://localhost'')
        # concat (replicate 10 [Delay 5000, Connect (Some ''amqp://localhost'')])\<rparr>"

text \<open>
  A runtime over strings: it serializes every message but \<open>''circular''\<close>, on which
  \<^verbatim>\<open>JSON.stringify\<close> throws as it does on a cyclic object, and it parses every text but
  those that start with \<open>''<''\<close>.
\<close>

definition toy_runtime :: "(string, string) runtime" where
  "toy_runtime =
     \<lparr>JSON_stringify = (\<lambda>m.
        if m = ''circular'' then Inl (Error ''Converting circular structure to JSON'')
        else Inr (Some m)),
      Buffer_from = (\<lambda>s. s),
      Buffer_toString = (\<lambda>b. b),
      JSON_parse = (\<lambda>s.
        if take 1 s = ''<'' then Inl (Error ''Unexpected token < in JSON at position 0'')
        else Inr s)\<rparr>"


text \<open>A queue whose name is that of a member of \<^verbatim>\<open>Object.prototype\<close>.\<close>

definition CONSTRUCTOR_QUEUE :: queue_config where
  "CONSTRUCTOR_QUEUE =
     \<lparr>q_name = ''constructor'',
      q_options = \<lparr>q_durable = True, q_autoDelete = False,
        arguments = Some [(''x-dead-letter-exchange'', ''dlx.exchange''),
                          (''x-dead-letter-routing-key'', ''constructor.dlq'')]\<rparr>\<rparr>"

text \<open>A queue with a dead-letter reference that the lookup map does not know.\<close>

definition SMS_QUEUE :: queue_config where
  "SMS_QUEUE =
     \<lparr>q_name = ''sms.queue'',
      q_options = \<lparr>q_durable = True, q_autoDelete = False,
        arguments = Some [(''x-dead-letter-exchange'', ''dlx.exchange''),
                          (''x-dead-letter-routing-key'', ''sms.dlq'')]\<rparr>\<rparr>"

section \<open>The consumer's decision on a delivery\<close>

text \<open>
  On a channel that takes the decision, and with a handler that, when it rejects, rejects
  with something \<^verbatim>\<open>error.message\<close> can be read from, the callback issues one decision: the
  acknowledgement after a truthy result, the rejection without requeue otherwise.
\<close>

lemma decided_once:
  assumes "settle br [] (Ack m) = None" and "settle br [] (Nack m False False) = None"
      and "\<And>v t. onMessage v = Inl t \<Longrightarrow> \<exists>logged. message_of t = Inr logged"
  shows "(cb_issued (consume_callback rt br onMessage (Some m)) = [Ack m]
          \<or> cb_issued (consume_callback rt br onMessage (Some m)) = [Nack m False False])
       \<and> cb_thrown (consume_callback rt br onMessage (Some m)) = None"
proof (cases "deserializeMessage rt m")
  case (Inl e)
  then show ?thesis
    using assms(2) by (simp add: consume_callback_def try_block_def catch_block_def)
next
  case (Inr v)
  show ?thesis
  proof (cases "onMessage v")
    case (Inl t)
    then obtain logged where "message_of t = Inr logged" using assms(3) by blast
    then show ?thesis
      using Inr Inl assms(2) by (simp add: consume_callback_def try_block_def catch_block_def)
  next
    case (Inr success)
    then show ?thesis
      using \<open>deserializeMessage rt m = Inr v\<close> assms(1,2)
      by (simp add: consume_callback_def try_block_def catch_block_def Let_def)
  qed
qed

lemma handler_decides:
  assumes "settle br [] (Ack m) = None" and "settle br [] (Nack m False False) = None"
      and "deserializeMessage rt m = Inr v"
  shows "(\<forall>r. onMessage v = Inr r \<longrightarrow> truthy r \<longrightarrow>
            cb_issued (consume_callback rt br onMessage (Some m)) = [Ack m])
       \<and> (\<forall>r. onMessage v = Inr r \<longrightarrow> \<not> truthy r \<longrightarrow>
            cb_issued (consume_callback rt br onMessage (Some m)) = [Nack m False False])
       \<and> (\<forall>t logged. onMessage v = Inl t \<longrightarrow> message_of t = Inr logged \<longrightarrow>
            cb_issued (consume_callback rt br onMessage (Some m)) = [Nack m False False])"
  using assms by (simp add: consume_callback_def try_block_def catch_block_def Let_def)

text \<open>
  Claim C1 says that every delivery gets exactly one decision, also when the handler
  throws. Here the handler rejects with \<^verbatim>\<open>undefined\<close>: the \<^verbatim>\<open>catch\<close> block throws a
  \<^verbatim>\<open>TypeError\<close> at \<^verbatim>\<open>error.message\<close>, before its \<^verbatim>\<open>channel.nack\<close>, and the delivery gets no
  decision. And on a channel that has closed while a handler ran and returned \<^verbatim>\<open>true\<close>,
  \<^verbatim>\<open>channel.ack\<close> throws inside the \<^verbatim>\<open>try\<close> and the \<^verbatim>\<open>catch\<close> block then calls
  \<^verbatim>\<open>channel.nack\<close> for the same delivery: both decisions are called for.
\<close>

theorem undefined_rejection_leaves_delivery_undecided:
  "cb_issued (consume_callback toy_runtime willing (\<lambda>v. Inl (ThrowsValue JUndefined))
      (Some \<lparr>content = ''{}'', deliveryTag = 7\<rparr>)) = []
   \<and> cb_thrown (consume_callback toy_runtime willing (\<lambda>v. Inl (ThrowsValue JUndefined))
      (Some \<lparr>content = ''{}'', deliveryTag = 7\<rparr>))
     = Some (Error ''Cannot read properties of undefined (reading 'message')'')
   \<and> cb_issued (consume_callback toy_runtime closed_channel (\<lambda>v. Inr (JBoolean True))
      (Some \<lparr>content = ''{}'', deliveryTag = 7\<rparr>))
     = [Ack \<lparr>content = ''{}'', deliveryTag = 7\<rparr>,
        Nack \<lparr>content = ''{}'', deliveryTag = 7\<rparr> False False]"
  by (simp add: consume_callback_def try_block_def catch_block_def deserializeMessage_def
        toy_runtime_def willing_def closed_channel_def)

text \<open>
  Claim C2 says that a throwing handler has its message rejected without requeue. Here
  the handler rejects with \<^verbatim>\<open>null\<close>: it was called with the payload, and the callback ends
  with the \<^verbatim>\<open>TypeError\<close> of its \<^verbatim>\<open>catch\<close> block without having called \<^verbatim>\<open>channel.nack\<close>.
\<close>

theorem null_rejection_is_not_nacked:
  "cb_calls (consume_callback toy_runtime willing (\<lambda>v. Inl (ThrowsValue JNull))
      (Some \<lparr>content = ''{}'', deliveryTag = 7\<rparr>)) = [''{}'']
   \<and> cb_issued (consume_callback toy_runtime willing (\<lambda>v. Inl (ThrowsValue JNull))
      (Some \<lparr>content = ''{}'', deliveryTag = 7\<rparr>)) = []
   \<and> cb_thrown (consume_callback toy_runtime willing (\<lambda>v. Inl (ThrowsValue JNull))
      (Some \<lparr>content = ''{}'', deliveryTag = 7\<rparr>))
     = Some (Error ''Cannot read properties of null (reading 'message')'')"
  by (simp add: consume_callback_def try_block_def catch_block_def deserializeMessage_def
        toy_runtime_def willing_def)

text \<open>
  Claim C3. A delivery whose bytes \<^verbatim>\<open>JSON.parse\<close> refuses is rejected without requeue and
  the handler is not called for it; the \<^verbatim>\<open>null\<close> delivery (the consumer was cancelled)
  leads to no call of the handler, no acknowledgement and no rejection.
\<close>

theorem malformed_payload_rejected:
  "(JSON_parse rt (Buffer_toString rt (content m)) = Inl e \<longrightarrow>
      cb_issued (consume_callback rt br onMessage (Some m)) = [Nack m False False]
      \<and> cb_calls (consume_callback rt br onMessage (Some m)) = [])
   \<and> consume_callback rt br onMessage None
       = \<lparr>cb_issued = [], cb_calls = [], cb_thrown = None\<rparr>"
  by (simp add: consume_callback_def try_block_def catch_block_def deserializeMessage_def)

theorem malformed_payload_rejected_witness:
  "cb_issued (consume_callback toy_runtime willing (\<lambda>v. Inr (JBoolean True))
      (Some \<lparr>content = ''<html>'', deliveryTag = 8\<rparr>))
     = [Nack \<lparr>content = ''<html>'', deliveryTag = 8\<rparr> False False]
   \<and> cb_calls (consume_callback toy_runtime willing (\<lambda>v. Inr (JBoolean True))
      (Some \<lparr>content = ''<html>'', deliveryTag = 8\<rparr>)) = []
   \<and> consume_callback toy_runtime willing (\<lambda>v. Inr (JBoolean True)) None
       = \<lparr>cb_issued = [], cb_calls = [], cb_thrown = None\<rparr>"
proof -
  let ?m = "\<lparr>content = ''<html>'', deliveryTag = 8\<rparr>"
  have p: "JSON_parse toy_runtime (Buffer_toString toy_runtime (content ?m))
             = Inl (Error ''Unexpected token < in JSON at position 0'')"
    by (simp add: toy_runtime_def)
  show ?thesis
    using malformed_payload_rejected
      [of toy_runtime ?m "Error ''Unexpected token < in JSON at position 0''"
          willing "\<lambda>v. Inr (JBoolean True)"] p
    by simp
qed

section \<open>Topology provisioning\<close>

lemmas prog_defs = next_do_def and_then_def await_def resolve_def reject_def lift_def publish_def

text \<open>Sequencing after an awaited call, in a form that unfolds the five steps.\<close>

lemma next_await:
  "next_do (await br c) n tr
     = (case settle br tr c of None \<Rightarrow> n (tr @ [c]) | Some e \<Rightarrow> (Inl e, tr @ [c]))"
  by (simp add: next_do_def and_then_def await_def split: option.splits)

lemma next_resolve: "next_do (resolve ()) n = n"
  by (rule ext) (simp add: next_do_def and_then_def resolve_def)

lemma next_reject: "next_do (reject e) n tr = (Inl e, tr)"
  by (simp add: next_do_def and_then_def reject_def)

lemma next_assoc: "next_do (next_do a b) c = next_do a (next_do b c)"
  by (rule ext) (simp add: next_do_def and_then_def split: prod.splits sum.splits)

lemmas provision_steps = provision_def next_assoc next_await next_resolve next_reject await_def

text \<open>The lookup: its one own key, a name it does not know, a name it inherits.\<close>

lemma findDLQ_email: "findDLQForQueue ''email.queue'' = Some (Configured EMAIL_DLQ)"
  by (simp add: findDLQForQueue_def queueToDLQMap_def EMAIL_QUEUE_def)

lemma findDLQ_sms: "findDLQForQueue ''sms.queue'' = None"
  by (simp add: findDLQForQueue_def queueToDLQMap_def EMAIL_QUEUE_def Object_prototype_def)

lemma findDLQ_constructor: "findDLQForQueue ''constructor'' = Some (Inherited (Some ''Object''))"
  by (simp add: findDLQForQueue_def queueToDLQMap_def EMAIL_QUEUE_def Object_prototype_def)

lemma findDLQ_None:
  "(findDLQForQueue n = None) = (n \<noteq> ''email.queue'' \<and> n \<notin> fst ` set Object_prototype)"
  by (cases "map_of Object_prototype n")
     (auto simp: findDLQForQueue_def queueToDLQMap_def EMAIL_QUEUE_def
        map_of_eq_None_iff [symmetric])

lemmas world_defs = toy_runtime_def reachable_def willing_def congested_def connected_def
  ORDER_EXCHANGE_def EMAIL_QUEUE_def EMAIL_DLQ_def SMS_QUEUE_def CONSTRUCTOR_QUEUE_def
  ORDER_CREATED_def
  DEAD_LETTER_EXCHANGE_def MESSAGE_OPTIONS_def dlx_assertion_def
  findDLQ_email findDLQ_sms findDLQ_constructor

text \<open>Whatever the broker answers, steps 1 to 5 begin with the dead-letter exchange.\<close>

lemma provision_head:
  "\<exists>rest. snd (provision br ex q rk tr) = tr @ dlx_assertion # rest"
  by (simp add: provision_steps split: option.splits dlq_lookup.splits)


text \<open>For a queue the lookup does not know, they name the caller's exchange and queue only.\<close>

lemma provision_unmapped:
  assumes "findDLQForQueue (q_name q) = None"
  shows "set (snd (provision br ex q rk tr)) \<subseteq> set tr \<union>
     {dlx_assertion, AssertExchange (ex_name ex) (ex_type ex) (ex_options ex),
      AssertQueue (q_name q) (q_options q), BindQueue (q_name q) (ex_name ex) (Some rk)}"
  using assms
  by (auto simp: provision_steps split: option.splits)

text \<open>
  For a queue named \<open>''email.queue''\<close>, the main queue is reached only through the three
  dead-letter commands and the assertion of the main exchange.
\<close>

lemma provision_mapped:
  assumes "q_name q = ''email.queue''"
      and "AssertQueue (q_name q) (q_options q) \<in> set (snd (provision br ex q rk []))
           \<or> BindQueue (q_name q) (ex_name ex) (Some rk) \<in> set (snd (provision br ex q rk []))"
  shows "\<exists>args rest. arguments (q_options q) = Some args
           \<and> snd (provision br ex q rk [])
             = AssertExchange ''dlx.exchange'' ''direct''
                 \<lparr>ex_durable = True, ex_autoDelete = False\<rparr>
               # AssertQueue ''email.dlq''
                   \<lparr>q_durable = True, q_autoDelete = False, arguments = None\<rparr>
               # BindQueue ''email.dlq'' ''dlx.exchange''
                   (map_of args ''x-dead-letter-routing-key'')
               # AssertExchange (ex_name ex) (ex_type ex) (ex_options ex)
               # AssertQueue (q_name q) (q_options q)
               # rest"
  using assms
  by (auto simp: provision_steps findDLQ_email
        EMAIL_DLQ_def dlx_assertion_def DEAD_LETTER_EXCHANGE_def
      split: option.splits)


lemma getChannel_cases:
  "fst (getChannel nt s) = Inr ch \<Longrightarrow> \<exists>s'. getChannel nt s = (Inr ch, s')"
  by (cases "getChannel nt s") auto

text \<open>What a call issues is what steps 1 to 5 issued, and then its own last commands.\<close>

lemma issued_publish:
  "issued (publishMessage rt nt br ex q rk msg s) = [] \<or>
   (\<exists>rest. issued (publishMessage rt nt br ex q rk msg s) = snd (provision br ex q rk []) @ rest
      \<and> (\<forall>c \<in> set rest. is_Publish c))"
  by (cases "getChannel nt s"; cases "provision br ex q rk []")
     (auto simp: publishMessage_def issued_def prog_defs split: sum.splits)

lemma issued_consume:
  "issued (consumeMessages nt br ex q rk s) = [] \<or>
   (\<exists>rest. issued (consumeMessages nt br ex q rk s) = snd (provision br ex q rk []) @ rest
      \<and> (\<forall>c \<in> set rest. c = Prefetch 1 \<or> c = Consume (q_name q) False))"
  by (cases "getChannel nt s"; cases "provision br ex q rk []")
     (auto simp: consumeMessages_def issued_def prog_defs prefetchCount_def noAck_def
        split: sum.splits option.splits)

text \<open>The code on the order exchange and the email queue, with a willing broker.\<close>

lemma connected_channel: "fst (getChannel reachable connected) = Inr 1"
  by (simp add: getChannel_def connected_def)

lemma email_provision:
  "provision willing ORDER_EXCHANGE EMAIL_QUEUE ORDER_CREATED []
     = (Inr (),
        [AssertExchange ''dlx.exchange'' ''direct'' \<lparr>ex_durable = True, ex_autoDelete = False\<rparr>,
         AssertQueue ''email.dlq'' \<lparr>q_durable = True, q_autoDelete = False, arguments = None\<rparr>,
         BindQueue ''email.dlq'' ''dlx.exchange'' (Some ''email.dlq''),
         AssertExchange ''order.exchange'' ''direct'' \<lparr>ex_durable = True, ex_autoDelete = False\<rparr>,
         AssertQueue ''email.queue'' (q_options EMAIL_QUEUE),
         BindQueue ''email.queue'' ''order.exchange'' (Some ''order.created'')])"
  by (simp add: provision_steps world_defs)

lemma email_provision_congested:
  "provision congested ORDER_EXCHANGE EMAIL_QUEUE ORDER_CREATED []
     = provision willing ORDER_EXCHANGE EMAIL_QUEUE ORDER_CREATED []"
  by (simp add: provision_steps world_defs)

lemma email_consume:
  "issued (consumeMessages reachable willing ORDER_EXCHANGE EMAIL_QUEUE ORDER_CREATED connected)
     = [AssertExchange ''dlx.exchange'' ''direct'' \<lparr>ex_durable = True, ex_autoDelete = False\<rparr>,
        AssertQueue ''email.dlq'' \<lparr>q_durable = True, q_autoDelete = False, arguments = None\<rparr>,
        BindQueue ''email.dlq'' ''dlx.exchange'' (Some ''email.dlq''),
        AssertExchange ''order.exchange'' ''direct'' \<lparr>ex_durable = True, ex_autoDelete = False\<rparr>,
        AssertQueue ''email.queue'' (q_options EMAIL_QUEUE),
        BindQueue ''email.queue'' ''order.exchange'' (Some ''order.created''),
        Prefetch 1,
        Consume ''email.queue'' False]"
  by (simp add: consumeMessages_def issued_def getChannel_def provision_steps prog_defs world_defs
        prefetchCount_def noAck_def)

text \<open>
  Claim C5, as stated, fails. \<open>SMS_QUEUE\<close> carries both dead-letter arguments, and neither
  \<^verbatim>\<open>consumeMessages\<close> nor \<^verbatim>\<open>publishMessage\<close> asserts or binds a dead-letter queue for it:
  before the main queue they assert two exchanges and nothing else.
\<close>

theorem unmapped_queue_gets_no_dead_letter_queue:
  "arguments (q_options SMS_QUEUE)
     = Some [(''x-dead-letter-exchange'', ''dlx.exchange''),
             (''x-dead-letter-routing-key'', ''sms.dlq'')]
   \<and> issued (consumeMessages reachable willing ORDER_EXCHANGE SMS_QUEUE ORDER_CREATED connected)
     = [AssertExchange ''dlx.exchange'' ''direct'' \<lparr>ex_durable = True, ex_autoDelete = False\<rparr>,
        AssertExchange ''order.exchange'' ''direct'' \<lparr>ex_durable = True, ex_autoDelete = False\<rparr>,
        AssertQueue ''sms.queue'' (q_options SMS_QUEUE),
        BindQueue ''sms.queue'' ''order.exchange'' (Some ''order.created''),
        Prefetch 1,
        Consume ''sms.queue'' False]
   \<and> issued (publishMessage toy_runtime reachable willing ORDER_EXCHANGE SMS_QUEUE
               ORDER_CREATED ''hello'' connected)
     = [AssertExchange ''dlx.exchange'' ''direct'' \<lparr>ex_durable = True, ex_autoDelete = False\<rparr>,
        AssertExchange ''order.exchange'' ''direct'' \<lparr>ex_durable = True, ex_autoDelete = False\<rparr>,
        AssertQueue ''sms.queue'' (q_options SMS_QUEUE),
        BindQueue ''sms.queue'' ''order.exchange'' (Some ''order.created''),
        Publish ''order.exchange'' ''order.created'' ''hello'' MESSAGE_OPTIONS]"
  by (simp add: consumeMessages_def publishMessage_def issued_def getChannel_def provision_steps
        serialize_def prog_defs world_defs prefetchCount_def noAck_def)

text \<open>
  Claim C5, amended. For every queue configuration named \<open>''email.queue''\<close>, the one key of
  the lookup map, whatever its arguments: when \<^verbatim>\<open>publishMessage\<close> or \<^verbatim>\<open>consumeMessages\<close>
  asserts the main queue or its binding, it has before that asserted the exchange
  \<open>''dlx.exchange''\<close>, asserted the queue \<open>''email.dlq''\<close> and bound it to \<open>''dlx.exchange''\<close>
  with the routing key found under \<open>''x-dead-letter-routing-key''\<close> in the configuration's
  arguments, in this order, and then asserted the main exchange.
\<close>

theorem mapped_queue_dead_letter_first:
  assumes "q_name q = ''email.queue''"
      and "r = issued (publishMessage rt nt br ex q rk msg s)
           \<or> r = issued (consumeMessages nt br ex q rk s)"
      and "AssertQueue (q_name q) (q_options q) \<in> set r
           \<or> BindQueue (q_name q) (ex_name ex) (Some rk) \<in> set r"
  shows "\<exists>args rest. arguments (q_options q) = Some args
           \<and> r = AssertExchange ''dlx.exchange'' ''direct''
                 \<lparr>ex_durable = True, ex_autoDelete = False\<rparr>
               # AssertQueue ''email.dlq''
                   \<lparr>q_durable = True, q_autoDelete = False, arguments = None\<rparr>
               # BindQueue ''email.dlq'' ''dlx.exchange''
                   (map_of args ''x-dead-letter-routing-key'')
               # AssertExchange (ex_name ex) (ex_type ex) (ex_options ex)
               # AssertQueue (q_name q) (q_options q)
               # rest"
proof -
  obtain rest where r: "r = snd (provision br ex q rk []) @ rest"
    and rest: "\<forall>c \<in> set rest. is_Publish c \<or> c = Prefetch 1 \<or> c = Consume (q_name q) False"
    using assms(2,3) issued_publish [of rt nt br ex q rk msg s] issued_consume [of nt br ex q rk s]
    by fastforce
  have "AssertQueue (q_name q) (q_options q) \<in> set (snd (provision br ex q rk []))
        \<or> BindQueue (q_name q) (ex_name ex) (Some rk) \<in> set (snd (provision br ex q rk []))"
    using assms(3) r rest by auto
  from provision_mapped [OF assms(1) this] show ?thesis
    using r by auto
qed

theorem mapped_queue_dead_letter_first_witness:
  "q_name EMAIL_QUEUE = ''email.queue''
   \<and> AssertQueue (q_name EMAIL_QUEUE) (q_options EMAIL_QUEUE)
       \<in> set (issued (consumeMessages reachable willing ORDER_EXCHANGE EMAIL_QUEUE
                        ORDER_CREATED connected))
   \<and> take 3 (issued (consumeMessages reachable willing ORDER_EXCHANGE EMAIL_QUEUE
                        ORDER_CREATED connected))
       = [AssertExchange ''dlx.exchange'' ''direct'' \<lparr>ex_durable = True, ex_autoDelete = False\<rparr>,
          AssertQueue ''email.dlq'' \<lparr>q_durable = True, q_autoDelete = False, arguments = None\<rparr>,
          BindQueue ''email.dlq'' ''dlx.exchange'' (Some ''email.dlq'')]"
proof -
  let ?r = "issued (consumeMessages reachable willing ORDER_EXCHANGE EMAIL_QUEUE
                        ORDER_CREATED connected)"
  have a: "q_name EMAIL_QUEUE = ''email.queue''"
    by (simp add: EMAIL_QUEUE_def)
  have b: "?r = issued (publishMessage toy_runtime reachable willing ORDER_EXCHANGE EMAIL_QUEUE
                   ORDER_CREATED ''hello'' connected) \<or> ?r = ?r"
    by simp
  have d: "AssertQueue (q_name EMAIL_QUEUE) (q_options EMAIL_QUEUE) \<in> set ?r"
    by (simp add: email_consume a)
  then have c: "AssertQueue (q_name EMAIL_QUEUE) (q_options EMAIL_QUEUE) \<in> set ?r
           \<or> BindQueue (q_name EMAIL_QUEUE) (ex_name ORDER_EXCHANGE) (Some ORDER_CREATED) \<in> set ?r"
    by simp
  obtain args rest where
    e: "arguments (q_options EMAIL_QUEUE) = Some args"
    and f: "?r = AssertExchange ''dlx.exchange'' ''direct''
                 \<lparr>ex_durable = True, ex_autoDelete = False\<rparr>
               # AssertQueue ''email.dlq''
                   \<lparr>q_durable = True, q_autoDelete = False, arguments = None\<rparr>
               # BindQueue ''email.dlq'' ''dlx.exchange''
                   (map_of args ''x-dead-letter-routing-key'')
               # AssertExchange (ex_name ORDER_EXCHANGE) (ex_type ORDER_EXCHANGE)
                   (ex_options ORDER_EXCHANGE)
               # AssertQueue (q_name EMAIL_QUEUE) (q_options EMAIL_QUEUE)
               # rest"
    using mapped_queue_dead_letter_first [OF a b c] by blast
  have g: "map_of args ''x-dead-letter-routing-key'' = Some ''email.dlq''"
    using e by (auto simp: EMAIL_QUEUE_def)
  have "take 3 ?r
       = [AssertExchange ''dlx.exchange'' ''direct'' \<lparr>ex_durable = True, ex_autoDelete = False\<rparr>,
          AssertQueue ''email.dlq'' \<lparr>q_durable = True, q_autoDelete = False, arguments = None\<rparr>,
          BindQueue ''email.dlq'' ''dlx.exchange'' (Some ''email.dlq'')]"
    by (subst f) (simp add: g)
  then show ?thesis using a d by simp
qed

text \<open>
  Claim C10, as stated, fails, twice. It speaks of every call: a call made while the
  module has no connection throws the error of \<^verbatim>\<open>getChannel\<close> and asserts nothing, the
  dead-letter exchange included. And it speaks of every queue without an entry in the
  lookup map: for a queue named \<open>''constructor''\<close> the map has no entry, the lookup finds
  the function \<^verbatim>\<open>Object\<close> on the prototype, and the code asserts a queue \<open>''Object''\<close> and
  binds it to the dead-letter exchange.
\<close>

theorem no_channel_or_inherited_lookup:
  "outcome (publishMessage toy_runtime unreachable willing ORDER_EXCHANGE EMAIL_QUEUE
              ORDER_CREATED ''hello'' initial)
     = Inl (Error ''No RabbitMQ connection available. Call connect() first.'')
   \<and> issued (publishMessage toy_runtime unreachable willing ORDER_EXCHANGE EMAIL_QUEUE
               ORDER_CREATED ''hello'' initial) = []
   \<and> outcome (consumeMessages unreachable willing ORDER_EXCHANGE EMAIL_QUEUE
               ORDER_CREATED initial)
     = Inl (Error ''No RabbitMQ connection available. Call connect() first.'')
   \<and> issued (consumeMessages unreachable willing ORDER_EXCHANGE EMAIL_QUEUE
               ORDER_CREATED initial) = []
   \<and> queueToDLQMap (q_name CONSTRUCTOR_QUEUE) = None
   \<and> issued (consumeMessages reachable willing ORDER_EXCHANGE CONSTRUCTOR_QUEUE
               ORDER_CREATED connected)
     = [AssertExchange ''dlx.exchange'' ''direct'' \<lparr>ex_durable = True, ex_autoDelete = False\<rparr>,
        AssertInherited (Some ''Object''),
        BindInherited (Some ''Object'') ''dlx.exchange'' (Some ''constructor.dlq''),
        AssertExchange ''order.exchange'' ''direct'' \<lparr>ex_durable = True, ex_autoDelete = False\<rparr>,
        AssertQueue ''constructor'' (q_options CONSTRUCTOR_QUEUE),
        BindQueue ''constructor'' ''order.exchange'' (Some ''order.created''),
        Prefetch 1,
        Consume ''constructor'' False]"
proof -
  have a: "issued (consumeMessages reachable willing ORDER_EXCHANGE CONSTRUCTOR_QUEUE
               ORDER_CREATED connected)
     = [AssertExchange ''dlx.exchange'' ''direct'' \<lparr>ex_durable = True, ex_autoDelete = False\<rparr>,
        AssertInherited (Some ''Object''),
        BindInherited (Some ''Object'') ''dlx.exchange'' (Some ''constructor.dlq''),
        AssertExchange ''order.exchange'' ''direct'' \<lparr>ex_durable = True, ex_autoDelete = False\<rparr>,
        AssertQueue ''constructor'' (q_options CONSTRUCTOR_QUEUE),
        BindQueue ''constructor'' ''order.exchange'' (Some ''order.created''),
        Prefetch 1,
        Consume ''constructor'' False]"
    by (simp add: consumeMessages_def issued_def getChannel_def provision_steps world_defs
          prefetchCount_def noAck_def)
  have b: "queueToDLQMap (q_name CONSTRUCTOR_QUEUE) = None"
    by (simp add: queueToDLQMap_def CONSTRUCTOR_QUEUE_def EMAIL_QUEUE_def)
  show ?thesis
    using a b
    by (simp add: publishMessage_def consumeMessages_def outcome_def issued_def
          getChannel_def initial_def)
qed

text \<open>
  Claim C10, amended. Every call of \<^verbatim>\<open>publishMessage\<close> and of \<^verbatim>\<open>consumeMessages\<close> that
  obtains a channel asserts the exchange \<open>''dlx.exchange''\<close> first, whatever the queue is.
  When the lookup finds nothing for the queue's name (\<^verbatim>\<open>findDLQForQueue\<close> returns \<^verbatim>\<open>null\<close>:
  the name is not \<open>''email.queue''\<close> and not that of a member of \<^verbatim>\<open>Object.prototype\<close>), no
  dead-letter queue is asserted or bound: beside that first assertion, every command the
  call issues is the assertion of the caller's exchange, the assertion of the caller's
  queue, the binding of the two, or the call's own publish (prefetch and subscription
  for the consumer).
\<close>

theorem dlx_asserted_regardless_of_lookup:
  assumes "fst (getChannel nt s) = Inr ch"
  shows "(\<exists>rest. issued (publishMessage rt nt br ex q rk msg s)
             = AssertExchange ''dlx.exchange'' ''direct''
                 \<lparr>ex_durable = True, ex_autoDelete = False\<rparr> # rest)
       \<and> (\<exists>rest. issued (consumeMessages nt br ex q rk s)
             = AssertExchange ''dlx.exchange'' ''direct''
                 \<lparr>ex_durable = True, ex_autoDelete = False\<rparr> # rest)
       \<and> (findDLQForQueue (q_name q) = None \<longrightarrow>
            (\<forall>c \<in> set (issued (publishMessage rt nt br ex q rk msg s)).
               c = AssertExchange ''dlx.exchange'' ''direct''
                     \<lparr>ex_durable = True, ex_autoDelete = False\<rparr>
               \<or> c = AssertExchange (ex_name ex) (ex_type ex) (ex_options ex)
               \<or> c = AssertQueue (q_name q) (q_options q)
               \<or> c = BindQueue (q_name q) (ex_name ex) (Some rk)
               \<or> is_Publish c)
          \<and> (\<forall>c \<in> set (issued (consumeMessages nt br ex q rk s)).
               c = AssertExchange ''dlx.exchange'' ''direct''
                     \<lparr>ex_durable = True, ex_autoDelete = False\<rparr>
               \<or> c = AssertExchange (ex_name ex) (ex_type ex) (ex_options ex)
               \<or> c = AssertQueue (q_name q) (q_options q)
               \<or> c = BindQueue (q_name q) (ex_name ex) (Some rk)
               \<or> c = Prefetch 1
               \<or> c = Consume (q_name q) False))"
proof -
  obtain s' where g: "getChannel nt s = (Inr ch, s')"
    using assms getChannel_cases by blast
  have dlx: "dlx_assertion = AssertExchange ''dlx.exchange'' ''direct''
                 \<lparr>ex_durable = True, ex_autoDelete = False\<rparr>"
    by (simp add: dlx_assertion_def DEAD_LETTER_EXCHANGE_def)
  obtain r1 where r1: "snd (provision br ex q rk []) = dlx_assertion # r1"
    using provision_head [of br ex q rk "[]"] by auto
  have p: "\<exists>rest. issued (publishMessage rt nt br ex q rk msg s) = dlx_assertion # rest"
    using g r1
    by (cases "provision br ex q rk []")
       (auto simp: publishMessage_def issued_def prog_defs split: sum.splits)
  have c: "\<exists>rest. issued (consumeMessages nt br ex q rk s) = dlx_assertion # rest"
    using g r1
    by (cases "provision br ex q rk []")
       (auto simp: consumeMessages_def issued_def prog_defs split: sum.splits option.splits)
  have pu: "\<forall>c \<in> set (issued (publishMessage rt nt br ex q rk msg s)).
               c = dlx_assertion
               \<or> c = AssertExchange (ex_name ex) (ex_type ex) (ex_options ex)
               \<or> c = AssertQueue (q_name q) (q_options q)
               \<or> c = BindQueue (q_name q) (ex_name ex) (Some rk)
               \<or> is_Publish c" if "findDLQForQueue (q_name q) = None"
    using g provision_unmapped [OF that, of br ex rk "[]"]
    by (cases "provision br ex q rk []")
       (auto simp: publishMessage_def issued_def prog_defs split: sum.splits)
  have cu: "\<forall>c \<in> set (issued (consumeMessages nt br ex q rk s)).
               c = dlx_assertion
               \<or> c = AssertExchange (ex_name ex) (ex_type ex) (ex_options ex)
               \<or> c = AssertQueue (q_name q) (q_options q)
               \<or> c = BindQueue (q_name q) (ex_name ex) (Some rk)
               \<or> c = Prefetch 1
               \<or> c = Consume (q_name q) False" if "findDLQForQueue (q_name q) = None"
    using g provision_unmapped [OF that, of br ex rk "[]"]
    by (cases "provision br ex q rk []")
       (auto simp: consumeMessages_def issued_def prog_defs prefetchCount_def noAck_def
             split: sum.splits option.splits)
  show ?thesis using p c pu cu unfolding dlx by blast
qed

theorem dlx_asserted_regardless_of_lookup_witness:
  "fst (getChannel reachable connected) = Inr 1
   \<and> findDLQForQueue (q_name SMS_QUEUE) = None
   \<and> hd (issued (publishMessage toy_runtime reachable willing ORDER_EXCHANGE SMS_QUEUE
                   ORDER_CREATED ''hello'' connected))
       = AssertExchange ''dlx.exchange'' ''direct'' \<lparr>ex_durable = True, ex_autoDelete = False\<rparr>
   \<and> AssertQueue ''email.dlq'' \<lparr>q_durable = True, q_autoDelete = False, arguments = None\<rparr>
       \<notin> set (issued (publishMessage toy_runtime reachable willing ORDER_EXCHANGE SMS_QUEUE
                        ORDER_CREATED ''hello'' connected))"
proof -
  let ?r = "issued (publishMessage toy_runtime reachable willing ORDER_EXCHANGE SMS_QUEUE
                        ORDER_CREATED ''hello'' connected)"
  let ?dlq = "AssertQueue ''email.dlq'' \<lparr>q_durable = True, q_autoDelete = False, arguments = None\<rparr>"
  have u: "findDLQForQueue (q_name SMS_QUEUE) = None"
    by (simp add: world_defs)
  note t = dlx_asserted_regardless_of_lookup
             [OF connected_channel, of toy_runtime willing ORDER_EXCHANGE SMS_QUEUE
                ORDER_CREATED "''hello''"]
  have h: "hd ?r = AssertExchange ''dlx.exchange'' ''direct''
                     \<lparr>ex_durable = True, ex_autoDelete = False\<rparr>"
    using t [THEN conjunct1] by auto
  have b: "\<forall>c \<in> set ?r.
             c = AssertExchange ''dlx.exchange'' ''direct''
                   \<lparr>ex_durable = True, ex_autoDelete = False\<rparr>
             \<or> c = AssertExchange (ex_name ORDER_EXCHANGE) (ex_type ORDER_EXCHANGE)
                     (ex_options ORDER_EXCHANGE)
             \<or> c = AssertQueue (q_name SMS_QUEUE) (q_options SMS_QUEUE)
             \<or> c = BindQueue (q_name SMS_QUEUE) (ex_name ORDER_EXCHANGE) (Some ORDER_CREATED)
             \<or> is_Publish c"
    using t [THEN conjunct2, THEN conjunct2, rule_format, OF u, THEN conjunct1] .
  have n: "?dlq \<notin> set ?r"
  proof
    assume "?dlq \<in> set ?r"
    from b [rule_format, OF this] show False
      by (simp add: SMS_QUEUE_def)
  qed
  show ?thesis using connected_channel u h n by simp
qed

section \<open>Publishing\<close>





text \<open>
  Claim C9. When the call has a channel, the provisioning succeeds and the message is
  serialized, \<^verbatim>\<open>publishMessage\<close> gives back what \<^verbatim>\<open>channel.publish\<close> gave: \<^verbatim>\<open>true\<close>, or
  \<^verbatim>\<open>false\<close> when the write buffer is full (or the error it threw). And the call returns
  a boolean only then: whenever it returns \<open>b\<close>, the provisioning and the serialization
  have succeeded and \<open>b\<close> is what \<^verbatim>\<open>channel.publish\<close> returned, so that every other
  failure is a thrown error and never the value \<^verbatim>\<open>false\<close>.
\<close>

theorem publish_returns_buffer_signal:
  "(\<forall>ch tr buf. fst (getChannel nt s) = Inr ch \<longrightarrow> provision br ex q rk [] = (Inr (), tr) \<longrightarrow>
        serialize rt msg = Inr buf \<longrightarrow>
        outcome (publishMessage rt nt br ex q rk msg s)
          = accept br tr (Publish (ex_name ex) rk buf MESSAGE_OPTIONS))
   \<and> (\<forall>b. outcome (publishMessage rt nt br ex q rk msg s) = Inr b \<longrightarrow>
        (\<exists>tr buf. provision br ex q rk [] = (Inr (), tr) \<and> serialize rt msg = Inr buf
           \<and> accept br tr (Publish (ex_name ex) rk buf MESSAGE_OPTIONS) = Inr b))"
proof -
  have 1: "outcome (publishMessage rt nt br ex q rk msg s)
          = accept br tr (Publish (ex_name ex) rk buf MESSAGE_OPTIONS)"
    if "fst (getChannel nt s) = Inr ch" "provision br ex q rk [] = (Inr (), tr)"
       "serialize rt msg = Inr buf" for ch tr buf
    using that
    by (cases "getChannel nt s")
       (auto simp: publishMessage_def outcome_def prog_defs split: sum.splits)
  have 2: "\<exists>tr buf. provision br ex q rk [] = (Inr (), tr) \<and> serialize rt msg = Inr buf
           \<and> accept br tr (Publish (ex_name ex) rk buf MESSAGE_OPTIONS) = Inr b"
    if "outcome (publishMessage rt nt br ex q rk msg s) = Inr b" for b
    using that
    by (cases "getChannel nt s"; cases "provision br ex q rk []"; cases "serialize rt msg")
       (auto simp: publishMessage_def outcome_def prog_defs split: sum.splits if_splits)
  show ?thesis using 1 2 by blast
qed

theorem publish_returns_buffer_signal_witness:
  "outcome (publishMessage toy_runtime reachable willing ORDER_EXCHANGE EMAIL_QUEUE
              ORDER_CREATED ''hello'' connected) = Inr True
   \<and> outcome (publishMessage toy_runtime reachable congested ORDER_EXCHANGE EMAIL_QUEUE
              ORDER_CREATED ''hello'' connected) = Inr False"
proof -
  have a: "serialize toy_runtime ''hello'' = Inr ''hello''"
    by (simp add: serialize_def toy_runtime_def)
  have w: "outcome (publishMessage toy_runtime reachable willing ORDER_EXCHANGE EMAIL_QUEUE
              ORDER_CREATED ''hello'' connected) = Inr True"
    using publish_returns_buffer_signal
            [THEN conjunct1, rule_format, OF connected_channel email_provision a]
    by (simp add: willing_def)
  have c: "outcome (publishMessage toy_runtime reachable congested ORDER_EXCHANGE EMAIL_QUEUE
              ORDER_CREATED ''hello'' connected) = Inr False"
    using publish_returns_buffer_signal
            [THEN conjunct1, rule_format, OF connected_channel
               email_provision_congested [unfolded email_provision] a]
    by (simp add: congested_def)
  show ?thesis using w c by simp
qed



section \<open>Connecting and reconnecting\<close>

text \<open>
  When every connection attempt is refused, the loop makes the attempts that are left of
  the ten, each after a delay of 5000 ms, and then gives up.
\<close>

lemma reconnect_loop_refused:
  assumes "\<And>evs u. \<exists>e. amqp_connect nt evs u = Inl e"
  shows "10 - reconnectAttempts s = n \<Longrightarrow> reconnect_loop nt s
     = Some (s\<lparr>reconnectAttempts := max (reconnectAttempts s) 10,
              isReconnecting := False,
              net_log := net_log s
                @ concat (replicate n [Delay 5000, Connect (connectionUrl s)])\<rparr>)"
proof (induction n arbitrary: s)
  case 0
  then show ?case
    by (subst reconnect_loop.simps) (simp add: MAX_RECONNECT_ATTEMPTS_def max_def)
next
  case (Suc n)
  let ?s3 = "s\<lparr>reconnectAttempts := reconnectAttempts s + 1,
               net_log := net_log s @ [Delay 5000, Connect (connectionUrl s)]\<rparr>"
  obtain e where e: "amqp_connect nt (net_log s @ [Delay 5000]) (connectionUrl s) = Inl e"
    using assms by blast
  have lt: "reconnectAttempts s < 10" using Suc.prems by simp
  have step: "reconnect_loop nt s = reconnect_loop nt ?s3"
    by (subst reconnect_loop.simps)
       (simp add: MAX_RECONNECT_ATTEMPTS_def RECONNECT_DELAY_MS_def lt e)
  have "10 - reconnectAttempts ?s3 = n" using Suc.prems by simp
  from Suc.IH [OF this] show ?case
    using lt by (simp add: step max_def)
qed

lemma handleReconnection_gives_up:
  assumes "\<And>evs u. \<exists>e. amqp_connect nt evs u = Inl e" "\<not> isReconnecting s"
  shows "handleReconnection nt s
     = Some (s\<lparr>reconnectAttempts := max (reconnectAttempts s) 10,
              net_log := net_log s
                @ concat (replicate (10 - reconnectAttempts s)
                    [Delay 5000, Connect (connectionUrl s)])\<rparr>)"
  using assms(2) reconnect_loop_refused [OF assms(1), of "s\<lparr>isReconnecting := True\<rparr>"]
  by (simp add: handleReconnection_def)

text \<open>
  When no channel is ever refused, the loop returns, and it has made no more attempts than
  were left of the ten.
\<close>

lemma reconnect_loop_bounded:
  assumes "\<And>evs cn. \<exists>c. createChannel nt evs cn = Inr c"
  shows "10 - reconnectAttempts s = n \<Longrightarrow>
     \<exists>s'. reconnect_loop nt s = Some s'
        \<and> connect_attempts (net_log s') \<le> connect_attempts (net_log s) + n"
proof (induction n arbitrary: s)
  case 0
  then show ?case
    by (subst reconnect_loop.simps) (simp add: MAX_RECONNECT_ATTEMPTS_def)
next
  case (Suc n)
  let ?s2 = "s\<lparr>reconnectAttempts := reconnectAttempts s + 1,
               net_log := net_log s @ [Delay RECONNECT_DELAY_MS]\<rparr>"
  let ?s3 = "?s2\<lparr>net_log := net_log ?s2 @ [Connect (connectionUrl s)]\<rparr>"
  have lt: "reconnectAttempts s < 10" using Suc.prems by simp
  show ?case
  proof (cases "amqp_connect nt (net_log ?s2) (connectionUrl s)")
    case (Inl e)
    have step: "reconnect_loop nt s = reconnect_loop nt ?s3"
      using Inl lt
      by (subst reconnect_loop.simps) (simp add: MAX_RECONNECT_ATTEMPTS_def)
    have "10 - reconnectAttempts ?s3 = n" using Suc.prems by simp
    from Suc.IH [OF this] show ?thesis
      by (auto simp: step connect_attempts_def)
  next
    case (Inr cn)
    obtain c where c: "createChannel nt (net_log ?s3) cn = Inr c"
      using assms by blast
    show ?thesis
      using Inr lt c
      by (subst reconnect_loop.simps)
         (simp add: MAX_RECONNECT_ATTEMPTS_def getChannel_def connect_attempts_def)
  qed
qed

text \<open>
  When every connection is accepted and every channel refused, the loop does not return
  unless the attempts were used up when it was entered: the counter is back at zero
  before \<^verbatim>\<open>getChannel\<close> throws.
\<close>

lemma reconnect_loop_hostile:
  assumes "\<And>evs u. \<exists>cn. amqp_connect nt evs u = Inr cn"
      and "\<And>evs cn. \<exists>e. createChannel nt evs cn = Inl e"
      and r: "reconnect_loop nt s = Some s'"
  shows "10 \<le> reconnectAttempts s"
proof -
  have "nt = nt \<longrightarrow> 10 \<le> reconnectAttempts s"
  proof (rule reconnect_loop.raw_induct
           [where P = "\<lambda>n a y. n = nt \<longrightarrow> 10 \<le> reconnectAttempts a", OF _ r], goal_cases)
    case (1 f n a y)
    show ?case
    proof (intro impI, rule ccontr)
      assume n: "n = nt" and "\<not> 10 \<le> reconnectAttempts a"
      then have lt: "reconnectAttempts a < 10" by simp
      let ?s2 = "a\<lparr>reconnectAttempts := reconnectAttempts a + 1,
                   net_log := net_log a @ [Delay RECONNECT_DELAY_MS]\<rparr>"
      let ?s3 = "?s2\<lparr>net_log := net_log ?s2 @ [Connect (connectionUrl a)]\<rparr>"
      obtain cn where cn: "amqp_connect nt (net_log ?s2) (connectionUrl a) = Inr cn"
        using assms(1) by blast
      obtain e where e: "createChannel nt (net_log ?s3) cn = Inl e"
        using assms(2) by blast
      from 1(2) lt cn e n
      obtain s4 where "f nt s4 = Some y" "reconnectAttempts s4 = 0"
        by (auto simp: MAX_RECONNECT_ATTEMPTS_def getChannel_def Let_def)
      with 1(1) show False by fastforce
    qed
  qed
  then show ?thesis by simp
qed

text \<open>On the flaky network each refused channel costs one more connection attempt.\<close>

lemma flaky_loop:
  "reconnectAttempts s < 10 \<Longrightarrow>
   length (filter is_CreateChannel (net_log s)) + k = 11 \<Longrightarrow>
   map_option (connect_attempts \<circ> net_log) (reconnect_loop flaky s)
     = Some (connect_attempts (net_log s) + k + 1)"
proof (induction k arbitrary: s)
  case 0
  then show ?case
    by (subst reconnect_loop.simps)
       (simp add: MAX_RECONNECT_ATTEMPTS_def flaky_def getChannel_def connect_attempts_def)
next
  case (Suc k)
  let ?s4 = "s\<lparr>connection := Some (Suc (length (net_log s))),
               reconnectAttempts := 0, isReconnecting := False, channel := None,
               net_log := net_log s @ [Delay RECONNECT_DELAY_MS, Connect (connectionUrl s),
                                       CreateChannel (Suc (length (net_log s)))]\<rparr>"
  have lt: "length (filter is_CreateChannel (net_log s)) < 11" using Suc.prems by simp
  have step: "reconnect_loop flaky s = reconnect_loop flaky ?s4"
    using Suc.prems(1) lt
    by (subst reconnect_loop.simps)
       (simp add: MAX_RECONNECT_ATTEMPTS_def flaky_def getChannel_def)
  have "map_option (connect_attempts \<circ> net_log) (reconnect_loop flaky ?s4)
     = Some (connect_attempts (net_log ?s4) + k + 1)"
    using Suc.prems by (intro Suc.IH) simp_all
  then show ?case
    by (simp add: step connect_attempts_def)
qed

text \<open>
  Claim C6 says that the reconnection makes at most ten connection attempts. Here the
  connection has dropped and \<^verbatim>\<open>handleReconnection\<close> runs on a network that accepts every
  connection and refuses the first eleven channels: one run of the procedure makes twelve
  connection attempts, since each success resets the counter before \<^verbatim>\<open>getChannel\<close>
  throws inside the same \<^verbatim>\<open>try\<close>.
\<close>

theorem reconnection_exceeds_max_attempts:
  "map_option (connect_attempts \<circ> net_log) (handleReconnection flaky dropped) = Some 12"
  using flaky_loop [of "dropped\<lparr>isReconnecting := True\<rparr>" 11]
  by (simp add: handleReconnection_def dropped_def connect_attempts_def)

lemma unreachable_refuses: "\<exists>e. amqp_connect unreachable evs u = Inl e"
  by (simp add: unreachable_def)

lemma unreachable_connect:
  "amqp_connect unreachable evs u = Inl (Error ''connect ECONNREFUSED 127.0.0.1:5672'')"
  by (simp add: unreachable_def)

lemma first_connect:
  "connect unreachable ''amqp://localhost'' initial
     = Some (Inl (Error ''connect ECONNREFUSED 127.0.0.1:5672''), exhausted)"
  by (simp add: connect_def initial_def exhausted_def unreachable_connect
      handleReconnection_gives_up [OF unreachable_refuses])

lemma second_connect:
  "connect unreachable ''amqp://localhost'' exhausted
     = Some (Inl (Error ''connect ECONNREFUSED 127.0.0.1:5672''),
             exhausted\<lparr>net_log := net_log exhausted @ [Connect (Some ''amqp://localhost'')]\<rparr>)"
  by (simp add: connect_def exhausted_def unreachable_connect
      handleReconnection_gives_up [OF unreachable_refuses])

lemma exhausted_attempts: "connect_attempts (net_log exhausted) = 11"
  by (simp add: exhausted_def connect_attempts_def eval_nat_numeral)

lemma recovering_reconnect:
  "handleReconnection recovering
     \<lparr>connection = None, channel = None, connectionUrl = Some ''amqp://localhost'',
      isReconnecting = False, reconnectAttempts = 0,
      net_log = [Connect (Some ''amqp://localhost'')]\<rparr>
   = Some \<lparr>connection = Some 2, channel = Some 3, connectionUrl = Some ''amqp://localhost'',
      isReconnecting = False, reconnectAttempts = 0,
      net_log = [Connect (Some ''amqp://localhost''), Delay 5000,
                 Connect (Some ''amqp://localhost''), CreateChannel 2]\<rparr>"
  unfolding handleReconnection_def
  by (simp, subst reconnect_loop.simps)
     (simp add: MAX_RECONNECT_ATTEMPTS_def RECONNECT_DELAY_MS_def recovering_def getChannel_def)

text \<open>
  Claim C7, as stated, fails. On the unreachable network the first call of \<^verbatim>\<open>connect\<close>
  throws, after eleven connection attempts in all; a second call, which is no longer the
  first attempt of the process, throws the error of its failed attempt to its caller too.
\<close>

theorem later_connect_failure_is_thrown:
  "connect unreachable ''amqp://localhost'' initial
     = Some (Inl (Error ''connect ECONNREFUSED 127.0.0.1:5672''), exhausted)
   \<and> connect_attempts (net_log exhausted) = 11
   \<and> map_option fst (connect unreachable ''amqp://localhost'' exhausted)
     = Some (Inl (Error ''connect ECONNREFUSED 127.0.0.1:5672''))"
  by (simp add: first_connect second_connect exhausted_attempts)

text \<open>
  Claim C7, amended. \<^verbatim>\<open>connect\<close> throws an error \<open>e\<close> to its caller exactly when there is no
  connection, its own attempt fails with \<open>e\<close>, and the reconnection procedure it then
  awaits returns; this holds for every call, the first of the process or a later one,
  and whether the reconnection gave up or succeeded. The failures of the attempts made
  inside the reconnection procedure are not thrown: \<^verbatim>\<open>handleReconnection\<close> has no error to
  return, and the error \<^verbatim>\<open>connect\<close> throws is that of its own attempt.
\<close>

theorem connect_rethrows_own_failure:
  "(connect nt url s = Some (Inl e, s'))
   = (connection s = None
      \<and> amqp_connect nt (net_log s) (Some url) = Inl e
      \<and> handleReconnection nt
           (s\<lparr>connectionUrl := Some url, net_log := net_log s @ [Connect (Some url)]\<rparr>)
         = Some s')"
  by (auto simp: connect_def Let_def split: option.splits sum.splits)

theorem connect_rethrows_own_failure_witness:
  "connection initial = None
   \<and> amqp_connect recovering (net_log initial) (Some ''amqp://localhost'')
       = Inl (Error ''connect ECONNREFUSED 127.0.0.1:5672'')
   \<and> connect recovering ''amqp://localhost'' initial
       = Some (Inl (Error ''connect ECONNREFUSED 127.0.0.1:5672''),
           \<lparr>connection = Some 2, channel = Some 3, connectionUrl = Some ''amqp://localhost'',
            isReconnecting = False, reconnectAttempts = 0,
            net_log = [Connect (Some ''amqp://localhost''), Delay 5000,
                       Connect (Some ''amqp://localhost''), CreateChannel 2]\<rparr>)"
proof -
  have a: "connection initial = None"
    by (simp add: initial_def)
  have b: "amqp_connect recovering (net_log initial) (Some ''amqp://localhost'')
       = Inl (Error ''connect ECONNREFUSED 127.0.0.1:5672'')"
    by (simp add: initial_def recovering_def)
  have c: "handleReconnection recovering
      (initial\<lparr>connectionUrl := Some ''amqp://localhost'',
         net_log := net_log initial @ [Connect (Some ''amqp://localhost'')]\<rparr>)
     = Some \<lparr>connection = Some 2, channel = Some 3, connectionUrl = Some ''amqp://localhost'',
            isReconnecting = False, reconnectAttempts = 0,
            net_log = [Connect (Some ''amqp://localhost''), Delay 5000,
                       Connect (Some ''amqp://localhost''), CreateChannel 2]\<rparr>"
    using recovering_reconnect by (simp add: initial_def)
  show ?thesis
    using connect_rethrows_own_failure [THEN iffD2, OF conjI [OF a conjI [OF b c]]] a b
    by simp
qed

end
